theory Spec2Isabelle
  imports Main
begin

section \<open>The external collaborators: status codes, the library, the messaging probe\<close>

text \<open>
  The wrapper of \<^verbatim>\<open>include/petsc_smart_ptr.hpp\<close> talks to two collaborators that are
  not part of the repository: the numerical library (object reference counting, the
  allocator, the matrix lifecycle calls) and the message-passing substrate (the
  non-blocking probe). They are modelled below; the wrapper's member functions, further
  down, are translated from the header, statement by statement.

  An address is a natural number, \<open>NULL\<close> is address 0. A status (\<^verbatim>\<open>PetscError\<close>) is an
  integer, 0 meaning success, as the header's test \<^verbatim>\<open>if(not m_ierr)\<close> reads it.
\<close>

type_synonym addr = nat
type_synonym PetscError = int
type_synonym PetscInt = int

abbreviation NULL :: addr where
  "NULL \<equiv> 0"

text \<open>
  Modelled from the spec: the status constants are declared in the library's
  \<^verbatim>\<open>petscerror.h\<close>, which is not in the repository. Section 7 of the specification
  names them \<open>OutOfMemory\<close>, \<open>Unsupported\<close>, \<open>SignalPending\<close>, \<open>NullAccess\<close>,
  \<open>WrongState\<close> and \<open>ReferenceError\<close> (the status of a reference-count call that
  fails). The numbers are the library's; nothing below depends on more than their being
  distinct and different from 0.
\<close>

definition PETSC_ERR_MEM :: PetscError where
  "PETSC_ERR_MEM = 55"

definition PETSC_ERR_SUP :: PetscError where
  "PETSC_ERR_SUP = 56"

definition PETSC_ERR_SIG :: PetscError where
  "PETSC_ERR_SIG = 59"

definition PETSC_ERR_ARG_CORRUPT :: PetscError where
  "PETSC_ERR_ARG_CORRUPT = 64"

definition PETSC_ERR_POINTER :: PetscError where
  "PETSC_ERR_POINTER = 70"

definition PETSC_ERR_WRONGSTATE :: PetscError where
  "PETSC_ERR_WRONGSTATE = 73"

text \<open>The calls that reach the collaborators, in the order they are issued.\<close>

datatype lib_call =
    Call_Iprobe
  | Call_Reference addr
  | Call_Dereference addr
  | Call_GetReference addr
  | Call_Free addr
  | Call_MatCreate nat
  | Call_MatDestroy addr

text \<open>
  The state of the collaborators: the live library objects with their reference
  counts, what the environment will answer (is a message pending, what the allocator's
  free routine and the matrix-create call report, which address a created matrix gets),
  and the log of calls issued so far.
\<close>

record petsc =
  objs :: "addr \<Rightarrow> PetscInt option"
  pending :: bool
  free_status :: PetscError
  create_status :: PetscError
  fresh :: addr
  calls :: "lib_call list"

definition issue :: "lib_call \<Rightarrow> petsc \<Rightarrow> petsc" where
  "issue c s = s\<lparr>calls := calls s @ [c]\<rparr>"

text \<open>
  Modelled from the spec: the messaging probe (section 6: a non-blocking ``is any
  message pending for me'' probe returning a flag). It writes the flag, 1 or 0, and
  consumes nothing.
\<close>

definition MPI_Iprobe :: "petsc \<Rightarrow> PetscInt \<times> petsc" where
  "MPI_Iprobe s = ((if pending s then 1 else 0), issue Call_Iprobe s)"

text \<open>
  Modelled from the spec: the library's reference-count calls (section 6, items c, d
  and e: increment, decrement, get). Each reports a status; on a handle that is not a
  live object it reports a failure and changes nothing. The get call writes the count
  into the caller's slot, given here as the slot's value before and after.
\<close>

definition PetscObjectReference :: "addr \<Rightarrow> petsc \<Rightarrow> PetscError \<times> petsc" where
  "PetscObjectReference p s =
     (case objs s p of
        None \<Rightarrow> (PETSC_ERR_ARG_CORRUPT, issue (Call_Reference p) s)
      | Some c \<Rightarrow> (0, issue (Call_Reference p) (s\<lparr>objs := (objs s)(p \<mapsto> c + 1)\<rparr>)))"

definition PetscObjectDereference :: "addr \<Rightarrow> petsc \<Rightarrow> PetscError \<times> petsc" where
  "PetscObjectDereference p s =
     (case objs s p of
        None \<Rightarrow> (PETSC_ERR_ARG_CORRUPT, issue (Call_Dereference p) s)
      | Some c \<Rightarrow> (0, issue (Call_Dereference p) (s\<lparr>objs := (objs s)(p \<mapsto> c - 1)\<rparr>)))"

definition PetscObjectGetReference ::
    "addr \<Rightarrow> PetscInt \<Rightarrow> petsc \<Rightarrow> PetscError \<times> PetscInt \<times> petsc" where
  "PetscObjectGetReference p cnt s =
     (case objs s p of
        None \<Rightarrow> (PETSC_ERR_ARG_CORRUPT, cnt, issue (Call_GetReference p) s)
      | Some c \<Rightarrow> (0, c, issue (Call_GetReference p) s))"

text \<open>
  Modelled from the spec: the allocator's free (section 6, item f; section 7,
  \<open>WrongState\<close>: ``deallocation requested but the library did not clear the pointer'').
  When the free routine reports success the storage is released and the caller's pointer
  is cleared; otherwise the pointer is left as it was. The result is the status, the
  caller's pointer afterwards and the new state.
\<close>

definition PetscFree :: "addr \<Rightarrow> petsc \<Rightarrow> PetscError \<times> addr \<times> petsc" where
  "PetscFree p s =
     (if free_status s = 0
      then (0, NULL, issue (Call_Free p) (s\<lparr>objs := (objs s)(p := None)\<rparr>))
      else (free_status s, p, issue (Call_Free p) s))"

text \<open>
  Modelled from the spec: the matrix lifecycle calls (section 6, item a: ``a
  constructor call that allocates a new resource into a caller-supplied process group'',
  item b: ``a destructor call that releases a resource and nulls the caller's
  pointer''). Both take the caller's pointer by address; the result holds the pointer's
  value afterwards.
\<close>

definition MatCreate :: "nat \<Rightarrow> addr \<Rightarrow> petsc \<Rightarrow> PetscError \<times> addr \<times> petsc" where
  "MatCreate comm p s =
     (if create_status s = 0
      then (0, fresh s,
            issue (Call_MatCreate comm)
              (s\<lparr>objs := (objs s)(fresh s \<mapsto> 1), fresh := Suc (fresh s)\<rparr>))
      else (create_status s, p, issue (Call_MatCreate comm) s))"

definition MatDestroy :: "addr \<Rightarrow> petsc \<Rightarrow> PetscError \<times> addr \<times> petsc" where
  "MatDestroy p s = (0, NULL, issue (Call_MatDestroy p) (s\<lparr>objs := (objs s)(p := None)\<rparr>))"

text \<open>
  Modelled from the spec: the macro \<^verbatim>\<open>CHKERRQ\<close> of \<^verbatim>\<open>petscerror.h\<close>, not in the
  repository. Section 4.1, step 2: ``if a fatal status is set, abort the process after
  surfacing the code''; the header's comments say the same (``if there's an error, crash
  before deallocating anything''). \<open>CHKERRQ ierr\<close> holds when control leaves through the
  abort path; the statements after the macro are then not executed.
\<close>

definition CHKERRQ :: "PetscError \<Rightarrow> bool" where
  "CHKERRQ ierr = (ierr \<noteq> 0)"

text \<open>How a constructor or destructor ends: it returns, or the process aborts with a status.\<close>

datatype exit = Returned | Aborted PetscError

section \<open>The generic wrapper \<^verbatim>\<open>petsc_smart_ptr_base\<close>\<close>

record petsc_smart_ptr_base =
  m_ierr :: PetscError
  m_ptr :: addr

text \<open>
  \<^verbatim>\<open>PetscError get(T* ptr)\<close>: the parameter is passed by value, so the assignment
  \<^verbatim>\<open>ptr = m_ptr\<close> changes the callee's copy. \<open>get_ptr\<close> is the body: its result is the
  returned status and the final value of the callee's copy. \<open>call_get_ptr\<close> is a call
  site whose argument is a variable holding \<open>v\<close>: it yields the returned status, the
  wrapper and the caller's variable after the call, the callee's copy being dropped.
\<close>

definition get_ptr :: "petsc_smart_ptr_base \<Rightarrow> addr \<Rightarrow> PetscError \<times> addr" where
  "get_ptr w ptr = (let ptr = m_ptr w in (0, ptr))"

definition call_get_ptr ::
    "petsc_smart_ptr_base \<Rightarrow> addr \<Rightarrow> PetscError \<times> petsc_smart_ptr_base \<times> addr" where
  "call_get_ptr w v = (case get_ptr w v of (ret, copy) \<Rightarrow> (ret, w, v))"

text \<open>
  \<^verbatim>\<open>PetscInt refcount()\<close>: the local \<^verbatim>\<open>refcnt\<close> is not initialised; \<open>refcnt0\<close> is the
  value it happens to hold. The status of the library call is dropped.
\<close>

definition refcount :: "petsc_smart_ptr_base \<Rightarrow> PetscInt \<Rightarrow> petsc \<Rightarrow> PetscInt \<times> petsc" where
  "refcount w refcnt0 s =
     (case PetscObjectGetReference (m_ptr w) refcnt0 s of (e, refcnt, s1) \<Rightarrow> (refcnt, s1))"

text \<open>
  \<^verbatim>\<open>PetscError refcount(PetscInt* cnt)\<close>: the body calls \<^verbatim>\<open>PetscObjectReference\<close>, the
  increment call, on the handle, with \<^verbatim>\<open>cnt\<close> as a second argument that the increment
  call has no parameter for; nothing is written through \<^verbatim>\<open>cnt\<close>. The function then
  returns 0. The result is the returned status, the slot's value afterwards and the new
  state.
\<close>

definition refcount_cnt ::
    "petsc_smart_ptr_base \<Rightarrow> PetscInt \<Rightarrow> petsc \<Rightarrow> PetscError \<times> PetscInt \<times> petsc" where
  "refcount_cnt w cnt s =
     (case PetscObjectReference (m_ptr w) s of (e, s1) \<Rightarrow> (0, cnt, s1))"

text \<open>
  \<^verbatim>\<open>virtual ~petsc_smart_ptr_base()\<close>. \<open>dtor_free\<close> and \<open>dtor_reincrement\<close> are the two
  branches of \<^verbatim>\<open>if(not m_ierr)\<close>.
\<close>

definition dtor_free :: "petsc_smart_ptr_base \<Rightarrow> petsc \<Rightarrow> petsc_smart_ptr_base \<times> petsc" where
  "dtor_free w s =
     (case PetscFree (m_ptr w) s of (e, p, s1) \<Rightarrow>
        let w1 = w\<lparr>m_ptr := p\<rparr> in
        ((if m_ptr w1 \<noteq> NULL then w1\<lparr>m_ierr := PETSC_ERR_WRONGSTATE\<rparr> else w1), s1))"

definition dtor_reincrement ::
    "petsc_smart_ptr_base \<Rightarrow> petsc \<Rightarrow> petsc_smart_ptr_base \<times> petsc" where
  "dtor_reincrement w s =
     (case PetscObjectReference (m_ptr w) s of (e, s1) \<Rightarrow> (w\<lparr>m_ierr := e\<rparr>, s1))"

definition petsc_smart_ptr_base_dtor ::
    "petsc_smart_ptr_base \<Rightarrow> petsc \<Rightarrow> exit \<times> petsc_smart_ptr_base \<times> petsc" where
  "petsc_smart_ptr_base_dtor w s =
     (if m_ptr w \<noteq> NULL then
        (case MPI_Iprobe s of (flag, s1) \<Rightarrow>
           let w1 = (if flag \<noteq> 0 then w\<lparr>m_ierr := PETSC_ERR_SIG\<rparr> else w) in
           if CHKERRQ (m_ierr w1) then (Aborted (m_ierr w1), w1, s1)
           else
             (case PetscObjectDereference (m_ptr w1) s1 of (e2, s2) \<Rightarrow>
                let w2 = w1\<lparr>m_ierr := e2\<rparr> in
                (case refcount_cnt w2 flag s2 of (e3, flag3, s3) \<Rightarrow>
                   let w3 = w2\<lparr>m_ierr := e3\<rparr> in
                   (case (if m_ierr w3 = 0 then dtor_free w3 s3 else dtor_reincrement w3 s3)
                    of (w4, s4) \<Rightarrow>
                      if CHKERRQ (m_ierr w4) then (Aborted (m_ierr w4), w4, s4)
                      else (Returned, w4, s4)))))
      else (Returned, w, s))"

text \<open>
  The destructor of the earlier drafts of the header (\<^verbatim>\<open>unnamed/part_000\<close>,
  \<^verbatim>\<open>unnamed/part_001\<close>): no test of the handle, no reference counting.
\<close>

definition draft_dtor ::
    "petsc_smart_ptr_base \<Rightarrow> petsc \<Rightarrow> exit \<times> petsc_smart_ptr_base \<times> petsc" where
  "draft_dtor w s =
     (case MPI_Iprobe s of (flag, s1) \<Rightarrow>
        let w1 = (if flag \<noteq> 0 then w\<lparr>m_ierr := PETSC_ERR_SIG\<rparr> else w) in
        if CHKERRQ (m_ierr w1) then (Aborted (m_ierr w1), w1, s1)
        else
          (case dtor_free w1 s1 of (w2, s2) \<Rightarrow>
             if CHKERRQ (m_ierr w2) then (Aborted (m_ierr w2), w2, s2)
             else (Returned, w2, s2)))"

text \<open>
  The constructors that adopt an existing object. \<^verbatim>\<open>petsc_smart_ptr_base(T& ptr)\<close>
  stores \<^verbatim>\<open>std::addressof(ptr)\<close>, here the address \<open>a\<close>, and
  \<^verbatim>\<open>petsc_smart_ptr_base(T* ptr)\<close> stores the pointer; both then assign the status of
  \<^verbatim>\<open>PetscObjectReference\<close> on the stored handle to \<^verbatim>\<open>m_ierr\<close> and check it.
\<close>

definition petsc_smart_ptr_base_ref ::
    "addr \<Rightarrow> petsc \<Rightarrow> exit \<times> petsc_smart_ptr_base \<times> petsc" where
  "petsc_smart_ptr_base_ref a s =
     (case PetscObjectReference a s of (e, s1) \<Rightarrow>
        let w = \<lparr>m_ierr = e, m_ptr = a\<rparr> in
        if CHKERRQ (m_ierr w) then (Aborted (m_ierr w), w, s1) else (Returned, w, s1))"

definition petsc_smart_ptr_base_ptr ::
    "addr \<Rightarrow> petsc \<Rightarrow> exit \<times> petsc_smart_ptr_base \<times> petsc" where
  "petsc_smart_ptr_base_ptr ptr s =
     (case PetscObjectReference ptr s of (e, s1) \<Rightarrow>
        let w = \<lparr>m_ierr = e, m_ptr = ptr\<rparr> in
        if CHKERRQ (m_ierr w) then (Aborted (m_ierr w), w, s1) else (Returned, w, s1))"

text \<open>
  The reference-form constructor of the draft \<^verbatim>\<open>unnamed/part_001\<close>
  (\<^verbatim>\<open>petsc_smart_ptr_base(const T& ptr)\<close>): it stores the address, sets \<^verbatim>\<open>m_ierr = 0\<close>
  and checks it; no library call.
\<close>

definition draft_ref :: "addr \<Rightarrow> petsc \<Rightarrow> exit \<times> petsc_smart_ptr_base \<times> petsc" where
  "draft_ref a s =
     (let w = \<lparr>m_ierr = 0, m_ptr = a\<rparr> in
      if CHKERRQ (m_ierr w) then (Aborted (m_ierr w), w, s) else (Returned, w, s))"

text \<open>
  The copy constructor: the members are initialised from the source \<^verbatim>\<open>ptr\<close>, then the
  status of \<^verbatim>\<open>PetscObjectReference((PetscObject)(ptr))\<close> is assigned to \<^verbatim>\<open>m_ierr\<close> and
  checked. The argument of the increment call is the source wrapper itself under a cast,
  not the handle it holds (\<^verbatim>\<open>ptr.m_ptr\<close> does not occur in the call). The header defines
  no conversion from the wrapper to a library object, so what the call hands to the
  library is a parameter: \<open>obj\<close>, the source wrapper presented as a library object. The
  source is not assigned to.
\<close>

definition petsc_smart_ptr_base_copy ::
    "addr \<Rightarrow> petsc_smart_ptr_base \<Rightarrow> petsc \<Rightarrow> exit \<times> petsc_smart_ptr_base \<times> petsc" where
  "petsc_smart_ptr_base_copy obj ptr s =
     (let w0 = \<lparr>m_ierr = m_ierr ptr, m_ptr = m_ptr ptr\<rparr> in
      case PetscObjectReference obj s of (e, s1) \<Rightarrow>
        let w = w0\<lparr>m_ierr := e\<rparr> in
        if CHKERRQ (m_ierr w) then (Aborted (m_ierr w), w, s1) else (Returned, w, s1))"

text \<open>
  The move constructor: the members are initialised from the source, then the source's
  destructor is called on it (\<^verbatim>\<open>ptr.~petsc_smart_ptr_base()\<close>). The result is how the
  constructor ends, the new wrapper, the source afterwards and the new state.
\<close>

definition petsc_smart_ptr_base_move ::
    "petsc_smart_ptr_base \<Rightarrow> petsc \<Rightarrow>
       exit \<times> petsc_smart_ptr_base \<times> petsc_smart_ptr_base \<times> petsc" where
  "petsc_smart_ptr_base_move ptr s =
     (let w = \<lparr>m_ierr = m_ierr ptr, m_ptr = m_ptr ptr\<rparr> in
      case petsc_smart_ptr_base_dtor ptr s of (x, ptr1, s1) \<Rightarrow> (x, w, ptr1, s1))"

text \<open>
  \<^verbatim>\<open>T* operator->()\<close> tests the handle, records \<^verbatim>\<open>PETSC_ERR_POINTER\<close> when it is null
  and returns the handle.
\<close>

definition operator_arrow :: "petsc_smart_ptr_base \<Rightarrow> addr \<times> petsc_smart_ptr_base" where
  "operator_arrow w =
     (let w1 = (if m_ptr w = NULL then w\<lparr>m_ierr := PETSC_ERR_POINTER\<rparr> else w)
      in (m_ptr w1, w1))"

text \<open>
  \<^verbatim>\<open>T& operator*()\<close>: the body is the single expression \<^verbatim>\<open>*m_ptr\<close>; the handle is not
  tested and no member is assigned. The indirection through a null pointer designates no
  object: that outcome is \<open>Null_Dereference\<close>.
\<close>

datatype lvalue = Object addr | Null_Dereference

definition indirection :: "addr \<Rightarrow> lvalue" where
  "indirection p = (if p = NULL then Null_Dereference else Object p)"

definition operator_star :: "petsc_smart_ptr_base \<Rightarrow> lvalue \<times> petsc_smart_ptr_base" where
  "operator_star w = (indirection (m_ptr w), w)"

section \<open>The matrix specialisation \<^verbatim>\<open>petsc_smart_ptr<_p_Mat>\<close>\<close>

text \<open>
  \<^verbatim>\<open>petsc_smart_ptr(Mat ptr, MPI_Comm comm)\<close>: the base is constructed from the pointer;
  the body calls \<^verbatim>\<open>MatCreate(comm, &m_ptr)\<close> as a statement of its own, its status not
  assigned to anything, then checks \<^verbatim>\<open>m_ierr\<close>.
\<close>

definition petsc_smart_ptr_Mat ::
    "addr \<Rightarrow> nat \<Rightarrow> petsc \<Rightarrow> exit \<times> petsc_smart_ptr_base \<times> petsc" where
  "petsc_smart_ptr_Mat ptr comm s =
     (case petsc_smart_ptr_base_ptr ptr s of (x, w, s1) \<Rightarrow>
        (case x of
           Aborted e \<Rightarrow> (Aborted e, w, s1)
         | Returned \<Rightarrow>
             (case MatCreate comm (m_ptr w) s1 of (e, p, s2) \<Rightarrow>
                let w1 = w\<lparr>m_ptr := p\<rparr> in
                if CHKERRQ (m_ierr w1) then (Aborted (m_ierr w1), w1, s2)
                else (Returned, w1, s2))))"

text \<open>
  \<^verbatim>\<open>~petsc_smart_ptr()\<close> of the specialisation: the body calls \<^verbatim>\<open>MatDestroy(&m_ptr)\<close>;
  the base destructor runs after the body, as for every derived class.
\<close>

definition petsc_smart_ptr_Mat_dtor ::
    "petsc_smart_ptr_base \<Rightarrow> petsc \<Rightarrow> exit \<times> petsc_smart_ptr_base \<times> petsc" where
  "petsc_smart_ptr_Mat_dtor w s =
     (case MatDestroy (m_ptr w) s of (e, p, s1) \<Rightarrow>
        petsc_smart_ptr_base_dtor (w\<lparr>m_ptr := p\<rparr>) s1)"

section \<open>Scopes\<close>

text \<open>
  A block that copy-constructs a wrapper from \<open>a\<close> and leaves, destroying the copy:
  \<^verbatim>\<open>{ petsc_smart_ptr_base<T> b(a); }\<close>. \<open>obj\<close> is \<open>a\<close> as the copy constructor's cast
  presents it to the library.
\<close>

definition copy_scope :: "addr \<Rightarrow> petsc_smart_ptr_base \<Rightarrow> petsc \<Rightarrow> exit \<times> petsc" where
  "copy_scope obj a s =
     (case petsc_smart_ptr_base_copy obj a s of (x, b, s1) \<Rightarrow>
        (case x of
           Aborted e \<Rightarrow> (Aborted e, s1)
         | Returned \<Rightarrow>
             (case petsc_smart_ptr_base_dtor b s1 of (y, b1, s2) \<Rightarrow> (y, s2))))"

section \<open>Example states\<close>

text \<open>
  One live object at address 1 with reference count \<open>c\<close>; the allocator and the create
  call succeed; \<open>msg\<close> tells whether a message is pending.
\<close>

definition lib0 :: "PetscInt \<Rightarrow> bool \<Rightarrow> petsc" where
  "lib0 c msg =
     \<lparr>objs = [1 \<mapsto> c], pending = msg, free_status = 0, create_status = 0,
      fresh = 2, calls = []\<rparr>"

definition holder :: "addr \<Rightarrow> petsc_smart_ptr_base" where
  "holder p = \<lparr>m_ierr = 0, m_ptr = p\<rparr>"

section \<open>Properties\<close>

lemmas lib_defs =
  MPI_Iprobe_def PetscObjectReference_def PetscObjectDereference_def
  PetscObjectGetReference_def PetscFree_def MatCreate_def MatDestroy_def issue_def
  CHKERRQ_def

lemmas wrapper_defs =
  refcount_def refcount_cnt_def dtor_free_def dtor_reincrement_def
  petsc_smart_ptr_base_dtor_def petsc_smart_ptr_base_ref_def petsc_smart_ptr_base_ptr_def
  petsc_smart_ptr_base_copy_def petsc_smart_ptr_base_move_def operator_arrow_def
  operator_star_def indirection_def petsc_smart_ptr_Mat_def petsc_smart_ptr_Mat_dtor_def
  copy_scope_def draft_ref_def draft_dtor_def

lemmas example_defs = lib0_def holder_def

subsection \<open>Facts about single operations\<close>

text \<open>The slot form of the reference-count query returns status 0 whatever the count is.\<close>

lemma refcount_cnt_status: "fst (refcount_cnt w cnt s) = 0"
  by (simp add: refcount_cnt_def split: prod.splits)

text \<open>The value form reads the count of a live handle and leaves every count as it was.\<close>

lemma refcount_reads: "objs s (m_ptr w) = Some c \<Longrightarrow> fst (refcount w r s) = c"
  by (simp add: refcount_def PetscObjectGetReference_def issue_def)

lemma refcount_read_only: "objs (snd (refcount w r s)) = objs s"
  by (simp add: refcount_def PetscObjectGetReference_def issue_def split: option.splits)

text \<open>An emptied wrapper is destroyed without any work.\<close>

lemma dtor_null: "m_ptr w = NULL \<Longrightarrow> petsc_smart_ptr_base_dtor w s = (Returned, w, s)"
  by (simp add: petsc_smart_ptr_base_dtor_def)

text \<open>
  When the destructor passes its first check, the deallocation call is issued, whatever
  the reference count is: the branch taken depends on the status returned by the slot
  form of the query, which is always 0.
\<close>

lemma dtor_always_frees:
  assumes "m_ptr w \<noteq> NULL" and "\<not> pending s" and "m_ierr w = 0"
  shows "Call_Free (m_ptr w) \<in> set (calls (snd (snd (petsc_smart_ptr_base_dtor w s))))"
  using assms
  by (auto simp add: wrapper_defs lib_defs Let_def split: option.splits prod.splits if_splits)

text \<open>
  The slot form of the query on a live handle: the count goes up by one, the slot keeps
  its value.
\<close>

lemma refcount_cnt_effect:
  assumes "objs s (m_ptr w) = Some c"
  shows "refcount_cnt w cnt s =
           (0, cnt, s\<lparr>objs := (objs s)(m_ptr w \<mapsto> c + 1),
                      calls := calls s @ [Call_Reference (m_ptr w)]\<rparr>)"
  using assms by (simp add: refcount_cnt_def PetscObjectReference_def issue_def)

text \<open>
  The whole destructor on a live handle, with no message pending and a wrapper in good
  standing: when the allocator succeeds the object is released, whatever its count; when
  it does not, the status becomes \<open>PETSC_ERR_WRONGSTATE\<close> and the destructor leaves
  through the abort path.
\<close>

lemma dtor_live:
  assumes "m_ptr w \<noteq> NULL" and "\<not> pending s" and "m_ierr w = 0"
    and "objs s (m_ptr w) = Some c" and "free_status s = 0"
  shows "petsc_smart_ptr_base_dtor w s =
           (Returned, w\<lparr>m_ptr := NULL\<rparr>,
            s\<lparr>objs := (objs s)(m_ptr w := None),
              calls := calls s @ [Call_Iprobe, Call_Dereference (m_ptr w),
                                 Call_Reference (m_ptr w), Call_Free (m_ptr w)]\<rparr>)"
  using assms by (simp add: wrapper_defs lib_defs)

lemma dtor_wrongstate:
  assumes "m_ptr w \<noteq> NULL" and "\<not> pending s" and "m_ierr w = 0"
    and "free_status s \<noteq> 0"
  shows "fst (petsc_smart_ptr_base_dtor w s) = Aborted PETSC_ERR_WRONGSTATE
         \<and> fst (snd (petsc_smart_ptr_base_dtor w s)) = w\<lparr>m_ierr := PETSC_ERR_WRONGSTATE\<rparr>"
  using assms
  by (simp add: wrapper_defs lib_defs PETSC_ERR_WRONGSTATE_def split: option.splits)

text \<open>
  The increment of the copy constructor reaches the count of the address the cast hands
  over, and no other: the count of the handle is as it was unless that address is the
  handle.
\<close>

lemma copy_leaves_other_counts:
  assumes "p \<noteq> obj"
  shows "objs (snd (snd (petsc_smart_ptr_base_copy obj ptr s))) p = objs s p"
  using assms
  by (simp add: petsc_smart_ptr_base_copy_def PetscObjectReference_def issue_def CHKERRQ_def
      Let_def split: option.splits)

text \<open>
  Whatever the cast hands over, the block that copies the wrapper on the object at
  address 1 (count 1) and destroys the copy does not both complete and leave the count
  at 1: if the address is not the handle the copy constructor fails, and if it is, the
  destructor releases the object.
\<close>

lemma copy_scope_never_balances:
  "\<not> (fst (copy_scope obj (holder 1) (lib0 1 False)) = Returned
      \<and> objs (snd (copy_scope obj (holder 1) (lib0 1 False))) 1 = Some 1)"
proof (cases "obj = 1")
  case True
  then show ?thesis by (simp add: wrapper_defs lib_defs example_defs)
next
  case False
  then show ?thesis
    by (simp add: wrapper_defs lib_defs example_defs PETSC_ERR_ARG_CORRUPT_def)
qed

text \<open>
  Whatever the create call reports, the matrix constructor on a live handle returns
  with status 0.
\<close>

lemma Mat_ctor_status:
  assumes "objs s p = Some c"
  shows "fst (petsc_smart_ptr_Mat p comm s) = Returned
         \<and> m_ierr (fst (snd (petsc_smart_ptr_Mat p comm s))) = 0"
  using assms by (simp add: wrapper_defs lib_defs)

text \<open>Member access on a handle that is not null returns it and records nothing.\<close>

lemma operator_arrow_nonnull: "m_ptr w \<noteq> NULL \<Longrightarrow> operator_arrow w = (m_ptr w, w)"
  by (simp add: operator_arrow_def)

subsection \<open>The properties of the specification\<close>

text \<open>
  C10. The pointer-output accessor \<^verbatim>\<open>get(T* ptr)\<close> assigns the handle to its by-value
  parameter and returns status 0: whatever the wrapper and the caller's pointer, the
  returned status is 0 and the wrapper and the caller's pointer variable are unchanged;
  only the callee's own copy received the handle.
\<close>

theorem get_ptr_no_caller_effect:
  "call_get_ptr w v = (0, w, v) \<and> get_ptr w v = (0, m_ptr w)"
  by (simp add: call_get_ptr_def get_ptr_def)

text \<open>
  C4. When a wrapper with a non-null handle is destroyed while the probe reports a
  pending message, the status becomes \<open>PETSC_ERR_SIG\<close> and the destructor leaves through
  the abort path; the probe is the only call issued, so no reference-count decrement and
  no deallocation call is made, and the library's objects are untouched. The drafts'
  destructor behaves the same way, for any handle.
\<close>

theorem dtor_pending_aborts_before_teardown:
  assumes "m_ptr w \<noteq> NULL" and "pending s"
  shows "petsc_smart_ptr_base_dtor w s =
           (Aborted PETSC_ERR_SIG, w\<lparr>m_ierr := PETSC_ERR_SIG\<rparr>, s\<lparr>calls := calls s @ [Call_Iprobe]\<rparr>)
         \<and> draft_dtor w s =
           (Aborted PETSC_ERR_SIG, w\<lparr>m_ierr := PETSC_ERR_SIG\<rparr>, s\<lparr>calls := calls s @ [Call_Iprobe]\<rparr>)"
  using assms
  by (simp add: petsc_smart_ptr_base_dtor_def draft_dtor_def MPI_Iprobe_def issue_def
      CHKERRQ_def PETSC_ERR_SIG_def)

theorem dtor_pending_aborts_before_teardown_witness:
  "m_ptr (holder 1) \<noteq> NULL \<and> pending (lib0 2 True)
   \<and> fst (petsc_smart_ptr_base_dtor (holder 1) (lib0 2 True)) = Aborted PETSC_ERR_SIG
   \<and> m_ierr (fst (snd (petsc_smart_ptr_base_dtor (holder 1) (lib0 2 True)))) = PETSC_ERR_SIG
   \<and> calls (snd (snd (petsc_smart_ptr_base_dtor (holder 1) (lib0 2 True)))) = [Call_Iprobe]
   \<and> objs (snd (snd (petsc_smart_ptr_base_dtor (holder 1) (lib0 2 True)))) 1 = Some 2"
proof -
  have h1: "m_ptr (holder 1) \<noteq> NULL" by (simp add: holder_def)
  have h2: "pending (lib0 2 True)" by (simp add: lib0_def)
  show ?thesis
    using dtor_pending_aborts_before_teardown [OF h1 h2] h1 h2
    by (simp add: lib0_def)
qed

text \<open>
  C1. The destructor does not free conditionally. Two wrappers share the object at
  address 1 (count 2) and one of them is destroyed, with no message pending: after the
  decrement the library's count is 1, as the value form of the query reports, yet the
  destructor issues the deallocation call, the object is released and the handle is
  cleared with status 0. The calls are the probe, the decrement, an increment (issued by
  the slot form of the query) and the free.
\<close>

theorem dtor_frees_shared_handle:
  "fst (refcount (holder 1) 0 (snd (PetscObjectDereference 1 (lib0 2 False)))) = 1
   \<and> fst (petsc_smart_ptr_base_dtor (holder 1) (lib0 2 False)) = Returned
   \<and> fst (snd (petsc_smart_ptr_base_dtor (holder 1) (lib0 2 False))) = holder NULL
   \<and> calls (snd (snd (petsc_smart_ptr_base_dtor (holder 1) (lib0 2 False))))
       = [Call_Iprobe, Call_Dereference 1, Call_Reference 1, Call_Free 1]
   \<and> objs (snd (snd (petsc_smart_ptr_base_dtor (holder 1) (lib0 2 False)))) 1 = None"
  by (simp add: wrapper_defs lib_defs example_defs)



text \<open>
  C3. The move constructor runs the source's destructor. Moving from a wrapper that
  holds the object at address 1 (count 1, status 0, no message pending) issues the probe,
  a decrement, an increment and the free: the object is released, the new wrapper holds
  address 1 all the same, and the source is left with a null handle and status 0.
  Destroying the source afterwards does nothing.
\<close>

theorem move_runs_source_destructor:
  "fst (petsc_smart_ptr_base_move (holder 1) (lib0 1 False)) = Returned
   \<and> fst (snd (petsc_smart_ptr_base_move (holder 1) (lib0 1 False))) = holder 1
   \<and> fst (snd (snd (petsc_smart_ptr_base_move (holder 1) (lib0 1 False)))) = holder NULL
   \<and> calls (snd (snd (snd (petsc_smart_ptr_base_move (holder 1) (lib0 1 False)))))
       = [Call_Iprobe, Call_Dereference 1, Call_Reference 1, Call_Free 1]
   \<and> objs (snd (snd (snd (petsc_smart_ptr_base_move (holder 1) (lib0 1 False))))) 1 = None
   \<and> calls (snd (snd (petsc_smart_ptr_base_dtor
                (fst (snd (snd (petsc_smart_ptr_base_move (holder 1) (lib0 1 False)))))
                (snd (snd (snd (petsc_smart_ptr_base_move (holder 1) (lib0 1 False))))))))
       = calls (snd (snd (snd (petsc_smart_ptr_base_move (holder 1) (lib0 1 False)))))"
  by (simp add: wrapper_defs lib_defs example_defs)

text \<open>
  C5, as the specification states it, fails: constructing a wrapper from the live
  object at address 1 in reference form issues the increment call and raises the count
  from 1 to 2.
\<close>

theorem ref_ctor_increments_counterexample:
  "objs (lib0 1 False) 1 = Some 1
   \<and> objs (snd (snd (petsc_smart_ptr_base_ref 1 (lib0 1 False)))) 1 = Some 2
   \<and> calls (snd (snd (petsc_smart_ptr_base_ref 1 (lib0 1 False)))) = [Call_Reference 1]"
  by (simp add: wrapper_defs lib_defs example_defs)

text \<open>
  C5, amended. Constructing a wrapper from an existing live object in reference form
  increments the library's reference count of the object by one and returns with status
  0, exactly as the pointer-form constructor does: the two constructors have the same
  effect. Only the reference-form constructor of the earlier draft makes no library call.
\<close>

theorem ref_ctor_increments_like_ptr_ctor:
  assumes "objs s p = Some c"
  shows "petsc_smart_ptr_base_ref p s =
           (Returned, \<lparr>m_ierr = 0, m_ptr = p\<rparr>,
            s\<lparr>objs := (objs s)(p \<mapsto> c + 1), calls := calls s @ [Call_Reference p]\<rparr>)
         \<and> petsc_smart_ptr_base_ptr p s = petsc_smart_ptr_base_ref p s
         \<and> draft_ref p s = (Returned, \<lparr>m_ierr = 0, m_ptr = p\<rparr>, s)"
  using assms by (simp add: wrapper_defs lib_defs)

theorem ref_ctor_increments_like_ptr_ctor_witness:
  "objs (lib0 3 False) 1 = Some 3
   \<and> fst (petsc_smart_ptr_base_ref 1 (lib0 3 False)) = Returned
   \<and> fst (snd (petsc_smart_ptr_base_ref 1 (lib0 3 False))) = holder 1
   \<and> objs (snd (snd (petsc_smart_ptr_base_ref 1 (lib0 3 False)))) 1 = Some 4
   \<and> objs (snd (snd (petsc_smart_ptr_base_ptr 1 (lib0 3 False)))) 1 = Some 4
   \<and> objs (snd (snd (draft_ref 1 (lib0 3 False)))) 1 = Some 3"
proof -
  have h: "objs (lib0 3 False) 1 = Some 3" by (simp add: lib0_def)
  show ?thesis
    using ref_ctor_increments_like_ptr_ctor [OF h] h
    by (simp add: holder_def)
qed

text \<open>
  C6. The matrix constructor drops the status of the create call. On the live handle
  at address 1, with a create call that reports \<open>PETSC_ERR_MEM\<close>, the constructor returns
  normally with status 0, after the increment call and the create call.
\<close>

theorem Mat_ctor_drops_create_status:
  "fst (MatCreate 0 1 (lib0 1 False\<lparr>create_status := PETSC_ERR_MEM\<rparr>)) = PETSC_ERR_MEM
   \<and> fst (petsc_smart_ptr_Mat 1 0 (lib0 1 False\<lparr>create_status := PETSC_ERR_MEM\<rparr>)) = Returned
   \<and> m_ierr (fst (snd (petsc_smart_ptr_Mat 1 0 (lib0 1 False\<lparr>create_status := PETSC_ERR_MEM\<rparr>)))) = 0
   \<and> calls (snd (snd (petsc_smart_ptr_Mat 1 0 (lib0 1 False\<lparr>create_status := PETSC_ERR_MEM\<rparr>))))
       = [Call_Reference 1, Call_MatCreate 0]"
  by (simp add: wrapper_defs lib_defs example_defs PETSC_ERR_MEM_def)

text \<open>
  C7, as the specification states it, fails: destroying a matrix wrapper on the live
  handle at address 1 while a message is pending returns normally, and the matrix
  destroy call is the only call issued: no probe, no decrement, no free.
\<close>

theorem Mat_dtor_skips_base_protocol_counterexample:
  "fst (petsc_smart_ptr_Mat_dtor (holder 1) (lib0 1 True)) = Returned
   \<and> calls (snd (snd (petsc_smart_ptr_Mat_dtor (holder 1) (lib0 1 True)))) = [Call_MatDestroy 1]"
  by (simp add: wrapper_defs lib_defs example_defs)

text \<open>
  C7, amended. Destroying a matrix wrapper issues the matrix destroy call, which
  releases the matrix and clears the handle; the base destructor, which runs next, finds
  the handle null and performs none of its four steps. The destructor returns, the
  wrapper's handle is null and its status is unchanged.
\<close>

theorem Mat_dtor_destroys_then_base_is_idle:
  "petsc_smart_ptr_Mat_dtor w s =
     (Returned, w\<lparr>m_ptr := NULL\<rparr>,
      s\<lparr>objs := (objs s)(m_ptr w := None), calls := calls s @ [Call_MatDestroy (m_ptr w)]\<rparr>)"
  by (simp add: wrapper_defs lib_defs)

text \<open>
  C8. Member access on a null handle records \<open>PETSC_ERR_POINTER\<close> and returns the null
  handle; the dereference operator on the same wrapper records nothing (the status stays
  0) and applies the indirection to the null pointer.
\<close>

theorem operator_star_null_unrecorded:
  "operator_arrow (holder NULL) = (NULL, \<lparr>m_ierr = PETSC_ERR_POINTER, m_ptr = NULL\<rparr>)
   \<and> operator_star (holder NULL) = (Null_Dereference, holder NULL)
   \<and> m_ierr (snd (operator_star (holder NULL))) = 0"
  by (simp add: wrapper_defs example_defs)

text \<open>
  C9. The value form of the reference-count query returns the count, 1, and leaves it
  as it is. The slot form, on the same wrapper and a slot holding 7, returns 0, leaves 7
  in the slot and raises the library's count to 2: the call it issues is the increment.
\<close>

theorem refcount_cnt_increments:
  "fst (refcount (holder 1) 7 (lib0 1 False)) = 1
   \<and> objs (snd (refcount (holder 1) 7 (lib0 1 False))) 1 = Some 1
   \<and> fst (refcount_cnt (holder 1) 7 (lib0 1 False)) = 0
   \<and> fst (snd (refcount_cnt (holder 1) 7 (lib0 1 False))) = 7
   \<and> objs (snd (snd (refcount_cnt (holder 1) 7 (lib0 1 False)))) 1 = Some 2
   \<and> calls (snd (snd (refcount_cnt (holder 1) 7 (lib0 1 False)))) = [Call_Reference 1]"
  by (simp add: wrapper_defs lib_defs example_defs)

end
